theory Spec2Isabelle
  imports Complex_Main "HOL-Library.Char_ord" "HOL-Library.List_Lexorder" "HOL-Library.Sublist" "HOL-Library.AList"
begin

section \<open>Go values, strings and regular expressions\<close>

text \<open>
  A Go \<open>string\<close> is a sequence of bytes, and so is an Isabelle \<open>string\<close>: \<open>length\<close> is
  Go's \<open>len\<close>. A value of the empty interface \<open>any\<close>, as \<open>encoding/json\<close> decodes it, is
  \<open>nil\<close>, a \<open>bool\<close>, a \<open>float64\<close>, a \<open>string\<close>, a \<open>[]any\<close> or a \<open>map[string]any\<close>;
  \<open>VInt\<close> stands for a value of Go's integer types. A finite \<open>float64\<close> is a rational
  number. A Go map is an association list; its keys are distinct in every value the
  program can build, and the order of the list stands for one order of iteration.
\<close>

datatype gval =
    VNil
  | VBool bool
  | VFloat rat
  | VInt int
  | VString string
  | VArray "gval list"
  | VObject "(string \<times> gval) list"

text \<open>
  The patterns of \<open>regexp.MustCompile\<close> used by the program are built from byte classes,
  concatenation, alternation and repetition. All classes are ASCII, so matching bytes
  is matching runes. Matching is by Brzozowski derivatives.
\<close>

datatype rexp =
    Zero
  | One
  | Cls "char list"
  | Seq rexp rexp
  | Alt rexp rexp
  | Star rexp

fun nullable :: "rexp \<Rightarrow> bool" where
  "nullable Zero = False"
| "nullable One = True"
| "nullable (Cls cs) = False"
| "nullable (Seq r s) = (nullable r \<and> nullable s)"
| "nullable (Alt r s) = (nullable r \<or> nullable s)"
| "nullable (Star r) = True"

fun der :: "char \<Rightarrow> rexp \<Rightarrow> rexp" where
  "der c Zero = Zero"
| "der c One = Zero"
| "der c (Cls cs) = (if c \<in> set cs then One else Zero)"
| "der c (Seq r s) =
     (if nullable r then Alt (Seq (der c r) s) (der c s) else Seq (der c r) s)"
| "der c (Alt r s) = Alt (der c r) (der c s)"
| "der c (Star r) = Seq (der c r) (Star r)"

fun matches :: "rexp \<Rightarrow> string \<Rightarrow> bool" where
  "matches r [] = nullable r"
| "matches r (c # cs) = matches (der c r) cs"

definition Str :: "string \<Rightarrow> rexp" where
  "Str s = foldr (\<lambda>c r. Seq (Cls [c]) r) s One"

fun Rep :: "nat \<Rightarrow> rexp \<Rightarrow> rexp" where
  "Rep 0 r = One"
| "Rep (Suc n) r = Seq r (Rep n r)"

definition Opt :: "rexp \<Rightarrow> rexp" where
  "Opt r = Alt r One"

fun RepUpTo :: "nat \<Rightarrow> rexp \<Rightarrow> rexp" where
  "RepUpTo 0 r = One"
| "RepUpTo (Suc n) r = Opt (Seq r (RepUpTo n r))"

definition RepRange :: "nat \<Rightarrow> nat \<Rightarrow> rexp \<Rightarrow> rexp" where
  \<comment> \<open>\<open>r{m,n}\<close>\<close>
  "RepRange m n r = Seq (Rep m r) (RepUpTo (n - m) r)"

definition RepMin :: "nat \<Rightarrow> rexp \<Rightarrow> rexp" where
  \<comment> \<open>\<open>r{m,}\<close>; \<open>r+\<close> is \<open>RepMin 1 r\<close>\<close>
  "RepMin m r = Seq (Rep m r) (Star r)"

definition digit :: "char list" where
  "digit = ''0123456789''"

definition hexdigit :: "char list" where
  "hexdigit = ''0123456789abcdefABCDEF''"

definition lower :: "char list" where
  "lower = ''abcdefghijklmnopqrstuvwxyz''"

definition upper :: "char list" where
  "upper = ''ABCDEFGHIJKLMNOPQRSTUVWXYZ''"

definition MatchString :: "rexp \<Rightarrow> string \<Rightarrow> bool" where
  \<comment> \<open>a pattern written \<open>^...$\<close>: the whole text matches\<close>
  "MatchString r s = matches r s"

definition MatchStringPrefix :: "rexp \<Rightarrow> string \<Rightarrow> bool" where
  \<comment> \<open>a pattern written \<open>^...\<close> with no \<open>$\<close>: some prefix of the text matches\<close>
  "MatchStringPrefix r s = list_ex (matches r) (prefixes s)"

section \<open>helpers.go\<close>

definition TypeString :: string where "TypeString = ''string''"
definition TypeInteger :: string where "TypeInteger = ''integer''"
definition TypeNumber :: string where "TypeNumber = ''number''"
definition TypeBoolean :: string where "TypeBoolean = ''boolean''"
definition TypeArray :: string where "TypeArray = ''array''"
definition TypeObject :: string where "TypeObject = ''object''"

definition FormatUUID :: string where "FormatUUID = ''uuid''"
definition FormatEmail :: string where "FormatEmail = ''email''"
definition FormatDateTime :: string where "FormatDateTime = ''date-time''"
definition FormatDate :: string where "FormatDate = ''date''"
definition FormatTime :: string where "FormatTime = ''time''"
definition FormatURI :: string where "FormatURI = ''uri''"
definition FormatIPv4 :: string where "FormatIPv4 = ''ipv4''"
definition FormatIPv6 :: string where "FormatIPv6 = ''ipv6''"

definition uuidPattern :: rexp where
  "uuidPattern =
     Seq (Rep 8 (Cls hexdigit)) (Seq (Str ''-'')
    (Seq (Rep 4 (Cls hexdigit)) (Seq (Str ''-'')
    (Seq (Rep 4 (Cls hexdigit)) (Seq (Str ''-'')
    (Seq (Rep 4 (Cls hexdigit)) (Seq (Str ''-'')
         (Rep 12 (Cls hexdigit)))))))))"

definition emailPattern :: rexp where
  "emailPattern =
     Seq (RepMin 1 (Cls (lower @ upper @ digit @ ''._%+-''))) (Seq (Str ''@'')
    (Seq (RepMin 1 (Cls (lower @ upper @ digit @ ''.-''))) (Seq (Str ''.'')
         (RepMin 2 (Cls (lower @ upper))))))"

definition datePattern :: rexp where
  "datePattern =
     Seq (Rep 4 (Cls digit)) (Seq (Str ''-'')
    (Seq (Rep 2 (Cls digit)) (Seq (Str ''-'') (Rep 2 (Cls digit)))))"

definition timePattern :: rexp where
  "timePattern =
     Seq (Rep 2 (Cls digit)) (Seq (Str '':'')
    (Seq (Rep 2 (Cls digit)) (Seq (Str '':'') (Rep 2 (Cls digit)))))"

definition dateTimePattern :: rexp where
  "dateTimePattern = Seq datePattern (Seq (Cls ''T '') timePattern)"

definition uriPattern :: rexp where
  "uriPattern = Seq (Str ''http'') (Seq (Opt (Str ''s'')) (Str ''://''))"

definition ipv4Octet :: rexp where
  \<comment> \<open>\<open>25[0-5]|2[0-4][0-9]|[01]?[0-9][0-9]?\<close>\<close>
  "ipv4Octet =
     Alt (Seq (Str ''25'') (Cls ''012345''))
    (Alt (Seq (Str ''2'') (Seq (Cls ''01234'') (Cls digit)))
         (Seq (Opt (Cls ''01'')) (Seq (Cls digit) (Opt (Cls digit)))))"

definition ipv4Pattern :: rexp where
  "ipv4Pattern = Seq (Rep 3 (Seq ipv4Octet (Str ''.''))) ipv4Octet"

definition ipv6Pattern :: rexp where
  "ipv6Pattern =
     Seq (Rep 7 (Seq (RepRange 1 4 (Cls hexdigit)) (Str '':'')))
         (RepRange 1 4 (Cls hexdigit))"

definition is_int64_whole :: "rat \<Rightarrow> bool" where
  \<comment> \<open>\<open>v == float64(int64(v))\<close>: the value is whole and converts to \<open>int64\<close> and back.
      Outside the range of \<open>int64\<close> the conversion is implementation-dependent; the
      model answers False there.\<close>
  "is_int64_whole v \<longleftrightarrow> of_int \<lfloor>v\<rfloor> = v \<and> - (2 ^ 63) \<le> v \<and> v < 2 ^ 63"

fun inferType :: "gval \<Rightarrow> string" where
  "inferType VNil = []"
| "inferType (VBool b) = TypeBoolean"
| "inferType (VFloat v) = (if is_int64_whole v then TypeInteger else TypeNumber)"
| "inferType (VInt i) = TypeInteger"
| "inferType (VString s) = TypeString"
| "inferType (VArray xs) = TypeArray"
| "inferType (VObject m) = TypeObject"

definition mergeTypes :: "string \<Rightarrow> string \<Rightarrow> string" where
  "mergeTypes t1 t2 =
     (if t1 = [] then t2
      else if t2 = [] then t1
      else if t1 = t2 then t1
      else if (t1 = TypeInteger \<and> t2 = TypeNumber) \<or> (t1 = TypeNumber \<and> t2 = TypeInteger)
        then TypeNumber
      else TypeString)"

definition detectFormat :: "string \<Rightarrow> string" where
  "detectFormat s =
     (if s = [] then []
      else if MatchString uuidPattern s then FormatUUID
      else if MatchString emailPattern s then FormatEmail
      else if MatchStringPrefix dateTimePattern s then FormatDateTime
      else if MatchString datePattern s then FormatDate
      else if MatchStringPrefix timePattern s then FormatTime
      else if MatchStringPrefix uriPattern s then FormatURI
      else if MatchString ipv4Pattern s then FormatIPv4
      else if MatchString ipv6Pattern s then FormatIPv6
      else [])"

lemma size_snd_le_alist:
  "(k, v) \<in> set m \<Longrightarrow> size (v :: gval) < Suc (size_list (size_prod (\<lambda>_. 0) size) m)"
  by (induction m) auto

function valuesEqual :: "gval \<Rightarrow> gval \<Rightarrow> bool" where
  "valuesEqual VNil b = (b = VNil)"
| "valuesEqual (VObject v1) b =
     (case b of
        VObject v2 \<Rightarrow>
          length v1 = length v2 \<and>
          list_all (\<lambda>kv. case map_of v2 (fst kv) of
                            None \<Rightarrow> False
                          | Some val2 \<Rightarrow> valuesEqual (snd kv) val2) v1
      | _ \<Rightarrow> False)"
| "valuesEqual (VArray v1) b =
     (case b of
        VArray v2 \<Rightarrow> length v1 = length v2 \<and> list_all2 valuesEqual v1 v2
      | _ \<Rightarrow> False)"
| "valuesEqual (VFloat v1) b = (case b of VFloat v2 \<Rightarrow> v1 = v2 | _ \<Rightarrow> False)"
| "valuesEqual (VInt v1) b = (case b of VInt v2 \<Rightarrow> v1 = v2 | _ \<Rightarrow> False)"
| "valuesEqual (VString v1) b = (case b of VString v2 \<Rightarrow> v1 = v2 | _ \<Rightarrow> False)"
| "valuesEqual (VBool v1) b = (case b of VBool v2 \<Rightarrow> v1 = v2 | _ \<Rightarrow> False)"
  by pat_completeness auto
termination
proof (relation "measure (\<lambda>(a, b). size a)", goal_cases)
  case 1
  show ?case by simp
next
  case (2 v1 b v2 kv val2)
  then have "(fst kv, snd kv) \<in> set v1" by simp
  from size_snd_le_alist[OF this] show ?case by simp
next
  case (3 v1 b v2 x y)
  then have "size x < Suc (size_list size v1)"
    by (induction v1) auto
  then show ?case by simp
qed

definition joinPath :: "string \<Rightarrow> string \<Rightarrow> string" where
  "joinPath basePath key = (if basePath = [] then key else basePath @ ''.'' @ key)"

section \<open>types.go: parameter aggregators\<close>

record ParamData =
  Name :: string
  Examples :: "gval list"
  Type :: string
  Format :: string
  Required :: bool
  seenCount :: int

definition NewParamData :: "string \<Rightarrow> ParamData" where
  "NewParamData name =
     \<lparr>Name = name, Examples = [], Type = ''string'', Format = [], Required = True,
      seenCount = 0\<rparr>"

definition ParamData_AddValue :: "ParamData \<Rightarrow> gval \<Rightarrow> ParamData" where
  "ParamData_AddValue p value =
     (let p1 = p\<lparr>seenCount := seenCount p + 1\<rparr>;
          inferredType = inferType value;
          p2 = (if Type p1 = [] \<or> Type p1 = ''string''
                then p1\<lparr>Type := inferredType\<rparr>
                else p1\<lparr>Type := mergeTypes (Type p1) inferredType\<rparr>);
          p3 = (case value of
                  VString str \<Rightarrow>
                    (let format = detectFormat str
                     in if format \<noteq> [] then p2\<lparr>Format := format\<rparr> else p2)
                | _ \<Rightarrow> p2)
      in if length (Examples p3) < 5
         then (if list_ex (\<lambda>ex. valuesEqual ex value) (Examples p3) then p3
               else p3\<lparr>Examples := Examples p3 @ [value]\<rparr>)
         else p3)"

section \<open>schema.go: schema nodes\<close>

datatype SchemaNode = SchemaNode
  (Type: string)
  (Format: string)
  (Properties: "(string \<times> SchemaNode) list")
  (Items: "SchemaNode option")
  (Required: "string list")
  (Nullable: bool)
  (Examples: "gval list")
  (Enum: "string list")

lemma size_prop_SchemaNode:
  "kv \<in> set ps \<Longrightarrow>
   size (snd kv :: SchemaNode) < Suc (size_list (size_prod (\<lambda>_. 0) size) ps)"
  by (induction ps) auto

section \<open>openapi/types.go and openapi/generator.go: schema conversion\<close>

text \<open>
  The field \<open>Type\<close> of an OpenAPI schema has Go type \<open>any\<close> and holds a \<open>string\<close> or a
  \<open>[]string\<close>. Only the fields that the generator sets are modelled; all others keep
  their zero value. A \<open>nil\<close> map or slice and an empty one are both the empty list: the
  serializers omit both.
\<close>

datatype SchemaType = TypeStr string | TypeList "string list"

datatype Schema = Schema
  (Type: SchemaType)
  (Format: string)
  (Enum: "gval list")
  (Items: "Schema option")
  (Properties: "(string \<times> Schema) list")
  (Required: "string list")
  (Examples: "gval list")

definition Version30 :: string where "Version30 = ''3.0.3''"
definition Version31 :: string where "Version31 = ''3.1.0''"

function convertNode :: "string \<Rightarrow> SchemaNode \<Rightarrow> Schema" where
  "convertNode version node =
     Schema
       (if SchemaNode.Nullable node \<and> version = Version31
        then TypeList [SchemaNode.Type node, ''null'']
        else TypeStr (SchemaNode.Type node))
       (if SchemaNode.Format node \<noteq> [] then SchemaNode.Format node else [])
       (if length (SchemaNode.Enum node) > 0 then map VString (SchemaNode.Enum node) else [])
       (if SchemaNode.Type node = ''array''
        then (case SchemaNode.Items node of
                None \<Rightarrow> None
              | Some items \<Rightarrow> Some (convertNode version items))
        else None)
       (if SchemaNode.Type node = ''object'' \<and> length (SchemaNode.Properties node) > 0
        then map (\<lambda>kv. (fst kv, convertNode version (snd kv))) (SchemaNode.Properties node)
        else [])
       (if SchemaNode.Type node = ''object'' \<and> length (SchemaNode.Properties node) > 0
           \<and> length (SchemaNode.Required node) > 0
        then SchemaNode.Required node
        else [])
       (if length (SchemaNode.Examples node) > 0 \<and> version = Version31
        then SchemaNode.Examples node
        else [])"
  by pat_completeness auto
termination
proof (relation "measure (\<lambda>(v, n). size n)", goal_cases)
  case 1
  show ?case by simp
next
  case (2 version node items)
  then show ?case by (cases node) simp
next
  case (3 version node kv)
  from size_prop_SchemaNode[OF 3(2)] show ?case by (cases node) simp
qed

declare convertNode.simps [simp del]

definition convertSchemaNode :: "string \<Rightarrow> SchemaNode option \<Rightarrow> Schema" where
  \<comment> \<open>\<open>Generator.convertSchemaNode\<close>; the first argument is \<open>g.options.Version\<close>\<close>
  "convertSchemaNode version node =
     (case node of
        None \<Rightarrow> Schema (TypeStr ''object'') [] [] None [] [] []
      | Some n \<Rightarrow> convertNode version n)"

section \<open>path.go: path template inference\<close>

definition uuidPathPattern :: rexp where
  \<comment> \<open>the same expression as \<open>uuidPattern\<close> of helpers.go\<close>
  "uuidPathPattern = uuidPattern"

definition datePathPattern :: rexp where
  \<comment> \<open>the same expression as \<open>datePattern\<close> of helpers.go\<close>
  "datePathPattern = datePattern"

definition numericPattern :: rexp where
  "numericPattern = RepMin 1 (Cls digit)"

definition shortHashPattern :: rexp where
  "shortHashPattern = RepRange 6 12 (Cls hexdigit)"

definition longHashPattern :: rexp where
  "longHashPattern = RepRange 32 64 (Cls hexdigit)"

definition objectIdPattern :: rexp where
  "objectIdPattern = Rep 24 (Cls hexdigit)"

definition base64IdPattern :: rexp where
  "base64IdPattern = RepMin 16 (Cls (upper @ lower @ digit @ ''_-''))"

definition versionPattern :: rexp where
  \<comment> \<open>\<open>^v\d+(\.\d+)?$\<close>\<close>
  "versionPattern =
     Seq (Str ''v'') (Seq (RepMin 1 (Cls digit))
         (Opt (Seq (Str ''.'') (RepMin 1 (Cls digit)))))"

datatype SegmentType =
    SegmentLiteral
  | SegmentNumericID
  | SegmentUUID
  | SegmentHash
  | SegmentObjectID
  | SegmentBase64ID
  | SegmentDate
  | SegmentUnknownID

record PathInferrer =
  resourceNames :: "(string \<times> string) list"

definition NewPathInferrer :: PathInferrer where
  "NewPathInferrer = \<lparr>resourceNames =
    [(''users'', ''userId''), (''user'', ''userId''), (''members'', ''memberId''),
     (''member'', ''memberId''), (''customers'', ''customerId''),
     (''customer'', ''customerId''), (''employees'', ''employeeId''),
     (''employee'', ''employeeId''), (''authors'', ''authorId''),
     (''author'', ''authorId''), (''owners'', ''ownerId''), (''owner'', ''ownerId''),
     (''admins'', ''adminId''), (''admin'', ''adminId''), (''posts'', ''postId''),
     (''post'', ''postId''), (''articles'', ''articleId''), (''article'', ''articleId''),
     (''comments'', ''commentId''), (''comment'', ''commentId''),
     (''reviews'', ''reviewId''), (''review'', ''reviewId''), (''replies'', ''replyId''),
     (''reply'', ''replyId''), (''messages'', ''messageId''), (''message'', ''messageId''),
     (''threads'', ''threadId''), (''thread'', ''threadId''),
     (''channels'', ''channelId''), (''channel'', ''channelId''), (''feeds'', ''feedId''),
     (''feed'', ''feedId''), (''pages'', ''pageId''), (''page'', ''pageId''),
     (''blogs'', ''blogId''), (''blog'', ''blogId''), (''orders'', ''orderId''),
     (''order'', ''orderId''), (''products'', ''productId''), (''product'', ''productId''),
     (''items'', ''itemId''), (''item'', ''itemId''), (''carts'', ''cartId''),
     (''cart'', ''cartId''), (''invoices'', ''invoiceId''), (''invoice'', ''invoiceId''),
     (''payments'', ''paymentId''), (''payment'', ''paymentId''),
     (''transactions'', ''transactionId''), (''transaction'', ''transactionId''),
     (''subscriptions'', ''subscriptionId''), (''subscription'', ''subscriptionId''),
     (''plans'', ''planId''), (''plan'', ''planId''), (''coupons'', ''couponId''),
     (''coupon'', ''couponId''), (''discounts'', ''discountId''),
     (''discount'', ''discountId''), (''accounts'', ''accountId''),
     (''account'', ''accountId''), (''organizations'', ''organizationId''),
     (''organization'', ''organizationId''), (''orgs'', ''orgId''), (''org'', ''orgId''),
     (''companies'', ''companyId''), (''company'', ''companyId''),
     (''workspaces'', ''workspaceId''), (''workspace'', ''workspaceId''),
     (''tenants'', ''tenantId''), (''tenant'', ''tenantId''),
     (''projects'', ''projectId''), (''project'', ''projectId''), (''tasks'', ''taskId''),
     (''task'', ''taskId''), (''issues'', ''issueId''), (''issue'', ''issueId''),
     (''tickets'', ''ticketId''), (''ticket'', ''ticketId''),
     (''milestones'', ''milestoneId''), (''milestone'', ''milestoneId''),
     (''sprints'', ''sprintId''), (''sprint'', ''sprintId''),
     (''releases'', ''releaseId''), (''release'', ''releaseId''),
     (''versions'', ''versionId''), (''version'', ''versionId''),
     (''builds'', ''buildId''), (''build'', ''buildId''),
     (''deployments'', ''deploymentId''), (''deployment'', ''deploymentId''),
     (''jobs'', ''jobId''), (''job'', ''jobId''), (''runs'', ''runId''),
     (''run'', ''runId''), (''pipelines'', ''pipelineId''), (''pipeline'', ''pipelineId''),
     (''teams'', ''teamId''), (''team'', ''teamId''), (''groups'', ''groupId''),
     (''group'', ''groupId''), (''roles'', ''roleId''), (''role'', ''roleId''),
     (''files'', ''fileId''), (''file'', ''fileId''), (''documents'', ''documentId''),
     (''document'', ''documentId''), (''attachments'', ''attachmentId''),
     (''attachment'', ''attachmentId''), (''images'', ''imageId''),
     (''image'', ''imageId''), (''assets'', ''assetId''), (''asset'', ''assetId''),
     (''media'', ''mediaId''), (''folders'', ''folderId''), (''folder'', ''folderId''),
     (''directories'', ''directoryId''), (''directory'', ''directoryId''),
     (''notifications'', ''notificationId''), (''notification'', ''notificationId''),
     (''events'', ''eventId''), (''event'', ''eventId''), (''webhooks'', ''webhookId''),
     (''webhook'', ''webhookId''), (''alerts'', ''alertId''), (''alert'', ''alertId''),
     (''logs'', ''logId''), (''log'', ''logId''), (''sessions'', ''sessionId''),
     (''session'', ''sessionId''), (''tokens'', ''tokenId''), (''token'', ''tokenId''),
     (''keys'', ''keyId''), (''key'', ''keyId''), (''secrets'', ''secretId''),
     (''secret'', ''secretId''), (''categories'', ''categoryId''),
     (''category'', ''categoryId''), (''tags'', ''tagId''), (''tag'', ''tagId''),
     (''labels'', ''labelId''), (''label'', ''labelId''), (''types'', ''typeId''),
     (''type'', ''typeId''), (''statuses'', ''statusId''), (''status'', ''statusId''),
     (''locations'', ''locationId''), (''location'', ''locationId''),
     (''addresses'', ''addressId''), (''address'', ''addressId''),
     (''regions'', ''regionId''), (''region'', ''regionId''),
     (''countries'', ''countryId''), (''country'', ''countryId''),
     (''cities'', ''cityId''), (''city'', ''cityId''), (''stores'', ''storeId''),
     (''store'', ''storeId''), (''warehouses'', ''warehouseId''),
     (''warehouse'', ''warehouseId''), (''apis'', ''apiId''), (''api'', ''apiId''),
     (''endpoints'', ''endpointId''), (''endpoint'', ''endpointId''),
     (''integrations'', ''integrationId''), (''integration'', ''integrationId''),
     (''connections'', ''connectionId''), (''connection'', ''connectionId''),
     (''apps'', ''appId''), (''app'', ''appId''), (''applications'', ''applicationId''),
     (''application'', ''applicationId''), (''services'', ''serviceId''),
     (''service'', ''serviceId''), (''resources'', ''resourceId''),
     (''resource'', ''resourceId''), (''repositories'', ''repositoryId''),
     (''repository'', ''repositoryId''), (''repos'', ''repoId''), (''repo'', ''repoId''),
     (''branches'', ''branchId''), (''branch'', ''branchId''), (''commits'', ''commitId''),
     (''commit'', ''commitId''), (''pulls'', ''pullId''), (''pull'', ''pullId''),
     (''merges'', ''mergeId''), (''merge'', ''mergeId''), (''databases'', ''databaseId''),
     (''database'', ''databaseId''), (''tables'', ''tableId''), (''table'', ''tableId''),
     (''collections'', ''collectionId''), (''collection'', ''collectionId''),
     (''records'', ''recordId''), (''record'', ''recordId''), (''entries'', ''entryId''),
     (''entry'', ''entryId''), (''rows'', ''rowId''), (''row'', ''rowId''),
     (''metrics'', ''metricId''), (''metric'', ''metricId''), (''reports'', ''reportId''),
     (''report'', ''reportId''), (''dashboards'', ''dashboardId''),
     (''dashboard'', ''dashboardId''), (''charts'', ''chartId''), (''chart'', ''chartId''),
     (''widgets'', ''widgetId''), (''widget'', ''widgetId''),
     (''settings'', ''settingId''), (''setting'', ''settingId''),
     (''preferences'', ''preferenceId''), (''preference'', ''preferenceId''),
     (''configurations'', ''configurationId''), (''configuration'', ''configurationId''),
     (''configs'', ''configId''), (''config'', ''configId''), (''options'', ''optionId''),
     (''option'', ''optionId''), (''features'', ''featureId''),
     (''feature'', ''featureId''), (''flags'', ''flagId''), (''flag'', ''flagId'')]\<rparr>"

text \<open>
  The functions of package \<open>strings\<close> and \<open>strconv\<close> that the inferrer calls.
  \<open>ToLower\<close> is Go's on ASCII text; bytes outside ASCII are left as they are.
\<close>

definition Index :: "string \<Rightarrow> char \<Rightarrow> nat option" where
  \<comment> \<open>\<open>strings.Index(s, sep)\<close> for a separator of one byte; \<open>None\<close> is \<open>-1\<close>\<close>
  "Index s c = (if c \<in> set s then Some (length (takeWhile (\<lambda>x. x \<noteq> c) s)) else None)"

definition Trim :: "string \<Rightarrow> char \<Rightarrow> string" where
  \<comment> \<open>\<open>strings.Trim(s, cutset)\<close> for a cutset of one byte\<close>
  "Trim s c = rev (dropWhile (\<lambda>x. x = c) (rev (dropWhile (\<lambda>x. x = c) s)))"

fun Split :: "string \<Rightarrow> char \<Rightarrow> string list" where
  \<comment> \<open>\<open>strings.Split(s, sep)\<close> for a separator of one byte\<close>
  "Split [] c = [[]]"
| "Split (x # xs) c =
     (if x = c then [] # Split xs c
      else (case Split xs c of [] \<Rightarrow> [[x]] | y # ys \<Rightarrow> (x # y) # ys))"

fun Join :: "string list \<Rightarrow> string \<Rightarrow> string" where
  "Join [] sep = []"
| "Join [x] sep = x"
| "Join (x # y # ys) sep = x @ sep @ Join (y # ys) sep"

definition HasSuffix :: "string \<Rightarrow> string \<Rightarrow> bool" where
  "HasSuffix s suf = suffix suf s"

definition HasPrefix :: "string \<Rightarrow> string \<Rightarrow> bool" where
  "HasPrefix s pre = prefix pre s"

definition lower_byte :: "char \<Rightarrow> char" where
  "lower_byte c = (case map_of (zip upper lower) c of Some l \<Rightarrow> l | None \<Rightarrow> c)"

definition ToLower :: "string \<Rightarrow> string" where
  "ToLower s = map lower_byte s"

definition digit_char :: "nat \<Rightarrow> char" where
  "digit_char d = digit ! d"

fun nat_digits :: "nat \<Rightarrow> string" where
  "nat_digits n = (if n < 10 then [digit_char n] else nat_digits (n div 10) @ [digit_char (n mod 10)])"

declare nat_digits.simps [simp del]

definition Itoa :: "int \<Rightarrow> string" where
  "Itoa i = (if i < 0 then CHR ''-'' # nat_digits (nat (- i)) else nat_digits (nat i))"

definition count_of :: "(string \<times> int) list \<Rightarrow> string \<Rightarrow> int" where
  \<comment> \<open>reading a \<open>map[string]int\<close>: a missing key reads as 0\<close>
  "count_of counts k = (case map_of counts k of None \<Rightarrow> 0 | Some n \<Rightarrow> n)"

definition looksLikeIDSegment :: "string \<Rightarrow> bool" where
  \<comment> \<open>\<open>float64(numCount)/float64(len(segment)) > 0.5\<close> is \<open>2 * numCount > len(segment)\<close>\<close>
  "looksLikeIDSegment segment =
     (let numCount = length (filter (\<lambda>c. c \<in> set digit) segment)
      in length segment > 4 \<and> 2 * numCount > length segment)"

definition classifySegment :: "PathInferrer \<Rightarrow> string \<Rightarrow> SegmentType" where
  "classifySegment p segment =
     (if MatchString versionPattern segment then SegmentLiteral
      else if MatchString uuidPathPattern segment then SegmentUUID
      else if MatchString objectIdPattern segment then SegmentObjectID
      else if MatchString numericPattern segment then
        (if length segment \<ge> 1 then SegmentNumericID else SegmentLiteral)
      else if MatchString longHashPattern segment then SegmentHash
      else if MatchString shortHashPattern segment then
        (if length segment \<ge> 8 then SegmentHash else SegmentLiteral)
      else if MatchString datePathPattern segment then SegmentDate
      else if MatchString base64IdPattern segment then SegmentBase64ID
      else if looksLikeIDSegment segment then SegmentUnknownID
      else SegmentLiteral)"

definition singularize :: "string \<Rightarrow> string" where
  "singularize word =
     (if length word < 2 then word
      else if HasSuffix word ''ies'' then take (length word - 3) word @ ''y''
      else if HasSuffix word ''es'' then
        (if HasSuffix word ''sses'' \<or> HasSuffix word ''shes'' \<or>
            HasSuffix word ''ches'' \<or> HasSuffix word ''xes''
         then take (length word - 2) word
         else take (length word - 1) word)
      else if HasSuffix word ''s'' \<and> \<not> HasSuffix word ''ss'' then take (length word - 1) word
      else word)"

definition suffixed :: "(string \<times> int) list \<Rightarrow> string \<Rightarrow> string" where
  \<comment> \<open>\<open>if counts[name] > 0 { return name + strconv.Itoa(counts[name]+1) }; return name\<close>\<close>
  "suffixed counts name =
     (if count_of counts name > 0 then name @ Itoa (count_of counts name + 1) else name)"

definition inferParamName ::
  "PathInferrer \<Rightarrow> string list \<Rightarrow> nat \<Rightarrow> SegmentType \<Rightarrow> (string \<times> int) list \<Rightarrow> string" where
  "inferParamName p segments idx segType counts =
     (if idx > 0 then
        (let prevSegment = ToLower (segments ! (idx - 1))
         in case map_of (resourceNames p) prevSegment of
              Some paramName \<Rightarrow> suffixed counts paramName
            | None \<Rightarrow> suffixed counts (singularize prevSegment @ ''Id''))
      else
        (case segType of
           SegmentUUID \<Rightarrow> suffixed counts ''uuid''
         | SegmentDate \<Rightarrow> suffixed counts ''date''
         | _ \<Rightarrow> suffixed counts ''id''))"

record TemplateState =
  result :: "string list"
  paramCounts :: "(string \<times> int) list"
  params :: "(string \<times> string) list"

definition InferTemplate_step ::
  "PathInferrer \<Rightarrow> string list \<Rightarrow> nat \<Rightarrow> TemplateState \<Rightarrow> TemplateState" where
  \<comment> \<open>the body of the loop \<open>for i, segment := range segments\<close>, with \<open>i < len(segments)\<close>\<close>
  "InferTemplate_step p segments i st =
     (let segment = segments ! i
      in if segment = [] then st\<lparr>result := (result st)[i := []]\<rparr>
         else
           (let segType = classifySegment p segment
            in if segType = SegmentLiteral then st\<lparr>result := (result st)[i := segment]\<rparr>
               else
                 (let paramName = inferParamName p segments i segType (paramCounts st)
                  in st\<lparr>paramCounts :=
                          AList.update paramName (count_of (paramCounts st) paramName + 1)
                            (paramCounts st),
                        params := AList.update paramName segment (params st),
                        result := (result st)[i := ''{'' @ paramName @ ''}'']\<rparr>)))"

definition InferTemplate :: "PathInferrer \<Rightarrow> string \<Rightarrow> string \<times> (string \<times> string) list" where
  "InferTemplate p path0 =
     (let path = (case Index path0 (CHR ''?'') of Some idx \<Rightarrow> take idx path0 | None \<Rightarrow> path0);
          segments = Split (Trim path (CHR ''/'')) (CHR ''/'')
      in if length segments = 0 \<or> (length segments = 1 \<and> segments ! 0 = []) then (''/'', [])
         else
           (let st = fold (InferTemplate_step p segments) [0..<length segments]
                       \<lparr>result = replicate (length segments) [], paramCounts = [], params = []\<rparr>
            in (''/'' @ Join (result st) ''/'', params st)))"

section \<open>types.go: the schema store\<close>

text \<open>
  The maps of a store are association lists built with \<open>AList.update\<close>; a key that is
  absent reads as the zero value, as in Go. Counters are Go \<open>int\<close>s far from overflow
  and are modelled as integers.
\<close>

record SchemaStore =
  Examples :: "(string \<times> gval list) list"
  Types :: "(string \<times> string) list"
  Optional :: "(string \<times> bool) list"
  Nullable :: "(string \<times> bool) list"
  Formats :: "(string \<times> string) list"
  seenCount :: "(string \<times> int) list"
  totalCount :: int
  maxExamples :: int

definition NewSchemaStore :: SchemaStore where
  "NewSchemaStore =
     \<lparr>Examples = [], Types = [], Optional = [], Nullable = [], Formats = [],
      seenCount = [], totalCount = 0, maxExamples = 5\<rparr>"

definition flag_of :: "(string \<times> bool) list \<Rightarrow> string \<Rightarrow> bool" where
  \<comment> \<open>reading a \<open>map[string]bool\<close>: a missing key reads as \<open>false\<close>\<close>
  "flag_of m k = (case map_of m k of None \<Rightarrow> False | Some b \<Rightarrow> b)"

definition string_of :: "(string \<times> string) list \<Rightarrow> string \<Rightarrow> string" where
  \<comment> \<open>reading a \<open>map[string]string\<close>: a missing key reads as the empty string\<close>
  "string_of m k = (case map_of m k of None \<Rightarrow> [] | Some v \<Rightarrow> v)"

definition examples_of :: "(string \<times> gval list) list \<Rightarrow> string \<Rightarrow> gval list" where
  \<comment> \<open>reading a \<open>map[string][]any\<close>: a missing key reads as the empty slice\<close>
  "examples_of m k = (case map_of m k of None \<Rightarrow> [] | Some v \<Rightarrow> v)"

definition AddObservation :: "SchemaStore \<Rightarrow> SchemaStore" where
  "AddObservation s = s\<lparr>totalCount := totalCount s + 1\<rparr>"

definition hasExample :: "SchemaStore \<Rightarrow> string \<Rightarrow> gval \<Rightarrow> bool" where
  "hasExample s path value =
     list_ex (\<lambda>ex. valuesEqual ex value) (examples_of (SchemaStore.Examples s) path)"

definition SchemaStore_AddValue :: "SchemaStore \<Rightarrow> string \<Rightarrow> gval \<Rightarrow> SchemaStore" where
  "SchemaStore_AddValue s path value =
     (let s1 = s\<lparr>seenCount :=
                  AList.update path (count_of (SchemaStore.seenCount s) path + 1)
                    (SchemaStore.seenCount s)\<rparr>
      in if value = VNil
         then s1\<lparr>Nullable := AList.update path True (SchemaStore.Nullable s1)\<rparr>
         else
           (let inferredType = inferType value;
                s2 = s1\<lparr>Types :=
                         AList.update path
                           (case map_of (Types s1) path of
                              Some existing \<Rightarrow> mergeTypes existing inferredType
                            | None \<Rightarrow> inferredType)
                           (Types s1)\<rparr>;
                s3 = (case value of
                        VString str \<Rightarrow>
                          (let format = detectFormat str
                           in if format \<noteq> []
                              then s2\<lparr>Formats := AList.update path format (Formats s2)\<rparr>
                              else s2)
                      | _ \<Rightarrow> s2)
            in if int (length (examples_of (SchemaStore.Examples s3) path)) < maxExamples s3
               then (if \<not> hasExample s3 path value
                     then s3\<lparr>Examples :=
                               AList.update path
                                 (examples_of (SchemaStore.Examples s3) path @ [value])
                                 (SchemaStore.Examples s3)\<rparr>
                     else s3)
               else s3))"

definition FinalizeOptional :: "SchemaStore \<Rightarrow> SchemaStore" where
  "FinalizeOptional s =
     fold (\<lambda>entry st.
             if snd entry < totalCount s
             then st\<lparr>Optional := AList.update (fst entry) True (Optional st)\<rparr>
             else st)
       (SchemaStore.seenCount s) s"

definition GetPaths :: "SchemaStore \<Rightarrow> string list" where
  "GetPaths s =
     map fst (SchemaStore.Examples s) @
     filter (\<lambda>path. map_of (SchemaStore.Examples s) path = None)
       (map fst (SchemaStore.Nullable s))"

section \<open>schema.go: folding a body into a store\<close>

definition isObjectArray :: "gval list \<Rightarrow> bool" where
  "isObjectArray arr = (case arr of [] \<Rightarrow> False | VObject m # _ \<Rightarrow> True | _ \<Rightarrow> False)"

lemma size_item_gval: "x \<in> set xs \<Longrightarrow> size (x :: gval) < Suc (size_list size xs)"
  by (induction xs) auto

text \<open>
  \<open>processValue\<close>, \<open>processObject\<close> and \<open>processArray\<close> call each other; here
  \<open>processValue\<close> carries the recursion and the other two are its object and array cases.
\<close>

function processValue :: "SchemaStore \<Rightarrow> string \<Rightarrow> gval \<Rightarrow> SchemaStore" where
  "processValue store path VNil = SchemaStore_AddValue store path VNil"
| "processValue store path (VObject obj) =
     fold (\<lambda>kv s. processValue s (joinPath path (fst kv)) (snd kv)) obj store"
| "processValue store path (VArray arr) =
     (let arrayPath = path @ ''[]''
      in if length arr = 0 then SchemaStore_AddValue store arrayPath VNil
         else if isObjectArray arr
         then fold (\<lambda>item s. case item of
                                 VObject obj \<Rightarrow> processValue s arrayPath item
                               | _ \<Rightarrow> s) arr store
         else fold (\<lambda>item s. SchemaStore_AddValue s arrayPath item) arr store)"
| "processValue store path (VBool b) = SchemaStore_AddValue store path (VBool b)"
| "processValue store path (VFloat v) = SchemaStore_AddValue store path (VFloat v)"
| "processValue store path (VInt i) = SchemaStore_AddValue store path (VInt i)"
| "processValue store path (VString str) = SchemaStore_AddValue store path (VString str)"
  by pat_completeness auto
termination
proof (relation "measure (\<lambda>(s, p, v). size v)", goal_cases)
  case 1
  show ?case by simp
next
  case (2 store path obj kv s)
  then have "(fst kv, snd kv) \<in> set obj" by simp
  from size_snd_le_alist[OF this] show ?case by simp
next
  case (3 store path arr arrayPath item s obj)
  from size_item_gval[OF 3(4)] show ?case by simp
qed

definition processObject :: "SchemaStore \<Rightarrow> string \<Rightarrow> (string \<times> gval) list \<Rightarrow> SchemaStore" where
  "processObject store basePath obj = processValue store basePath (VObject obj)"

definition processArray :: "SchemaStore \<Rightarrow> string \<Rightarrow> gval list \<Rightarrow> SchemaStore" where
  "processArray store basePath arr = processValue store basePath (VArray arr)"

definition ProcessBody :: "SchemaStore \<Rightarrow> gval \<Rightarrow> SchemaStore" where
  "ProcessBody store body =
     (if body = VNil then store else processValue (AddObservation store) [] body)"

section \<open>schema.go: building the schema tree\<close>

definition parsePathSegments :: "string \<Rightarrow> string list" where
  "parsePathSegments path = Split path (CHR ''.'')"

definition isArrayPath :: "string \<Rightarrow> bool" where
  "isArrayPath segment = HasSuffix segment ''[]''"

definition stripArraySuffix :: "string \<Rightarrow> string" where
  "stripArraySuffix segment =
     (if HasSuffix segment ''[]'' then take (length segment - 2) segment else segment)"

datatype treeNode = TreeNode
  (children: "(string \<times> treeNode) list")
  (fullPath: string)
  (isLeaf: bool)

lemma size_child_treeNode:
  "kv \<in> set cs \<Longrightarrow>
   size (snd kv :: treeNode) < Suc (size_list (size_prod (\<lambda>_. 0) size) cs)"
  by (induction cs) auto

fun insertPath :: "treeNode \<Rightarrow> string list \<Rightarrow> string \<Rightarrow> treeNode" where
  "insertPath current [] path = current"
| "insertPath current (part # rest) path =
     (let child0 = (case map_of (children current) part of
                      Some c \<Rightarrow> c
                    | None \<Rightarrow> TreeNode [] [] False);
          child1 = (if rest = [] then TreeNode (children child0) path True else child0)
      in TreeNode
           (AList.update part (insertPath child1 rest path) (children current))
           (fullPath current) (isLeaf current))"

definition createLeafSchema :: "string \<Rightarrow> SchemaStore \<Rightarrow> SchemaNode" where
  "createLeafSchema path store =
     SchemaNode
       (if string_of (Types store) path = [] then TypeString else string_of (Types store) path)
       (string_of (Formats store) path)
       []
       None
       []
       (flag_of (SchemaStore.Nullable store) path)
       (examples_of (SchemaStore.Examples store) path)
       []"

definition propName :: "string \<Rightarrow> string" where
  "propName key = (if isArrayPath key then stripArraySuffix key else key)"

definition childRequired :: "SchemaStore \<Rightarrow> treeNode \<Rightarrow> bool" where
  \<comment> \<open>\<open>child.fullPath != "" && !store.Optional[child.fullPath]\<close>\<close>
  "childRequired store child \<longleftrightarrow>
     fullPath child \<noteq> [] \<and> \<not> flag_of (Optional store) (fullPath child)"

function convertToSchemaNode :: "treeNode \<Rightarrow> SchemaStore \<Rightarrow> bool \<Rightarrow> SchemaNode" where
  "convertToSchemaNode node store isRoot =
     (if isLeaf node \<and> length (children node) = 0
      then createLeafSchema (fullPath node) store
      else if isRoot \<and> list_all (\<lambda>kv. isArrayPath (fst kv)) (children node)
                \<and> length (children node) = 1
      then SchemaNode TypeArray [] []
             (Some (convertToSchemaNode (snd (hd (children node))) store False))
             [] False [] []
      else
        SchemaNode TypeObject []
          (fold (\<lambda>kv props.
                   AList.update (propName (fst kv))
                     (if isArrayPath (fst kv)
                      then SchemaNode TypeArray [] []
                             (Some (convertToSchemaNode (snd kv) store False)) [] False [] []
                      else if isLeaf (snd kv) \<and> length (children (snd kv)) = 0
                      then createLeafSchema (fullPath (snd kv)) store
                      else convertToSchemaNode (snd kv) store False)
                     props)
             (children node) [])
          None
          (sort (map (\<lambda>kv. propName (fst kv))
                  (filter (\<lambda>kv. childRequired store (snd kv)) (children node))))
          False [] [])"
  by pat_completeness auto
termination
proof (relation "measure (\<lambda>(n, s, r). size n)", goal_cases)
  case 1
  show ?case by simp
next
  case (2 node store isRoot)
  then have "hd (children node) \<in> set (children node)"
    by (cases "children node") auto
  from size_child_treeNode[OF this] show ?case by (cases node) simp
next
  case (3 node store isRoot kv)
  from size_child_treeNode[OF 3(3)] show ?case by (cases node) simp
next
  case (4 node store isRoot kv)
  from size_child_treeNode[OF 4(3)] show ?case by (cases node) simp
qed

declare convertToSchemaNode.simps [simp del]

definition pathTree :: "SchemaStore \<Rightarrow> treeNode" where
  \<comment> \<open>the first pass of \<open>BuildSchemaTree\<close>: every tracked path but the empty one is
      inserted into an empty tree\<close>
  "pathTree s =
     fold (\<lambda>path root.
             if path = [] then root else insertPath root (parsePathSegments path) path)
       (GetPaths s) (TreeNode [] [] False)"

definition BuildSchemaTree :: "SchemaStore option \<Rightarrow> SchemaNode" where
  "BuildSchemaTree store =
     (case store of
        None \<Rightarrow> SchemaNode TypeObject [] [] None [] False [] []
      | Some s \<Rightarrow>
          if length (SchemaStore.Examples s) = 0 \<and> length (SchemaStore.Nullable s) = 0
          then SchemaNode TypeObject [] [] None [] False [] []
          else convertToSchemaNode (pathTree s) s True)"

section \<open>schema.go: merging schema nodes\<close>

text \<open>
  \<open>formatExample\<close> keys a \<open>float64\<close> example through floating-point arithmetic and a
  conversion of the product to a rune; that key is the parameter \<open>floatKey\<close>. A value
  of any type other than \<open>string\<close>, \<open>float64\<close>, \<open>bool\<close> and \<open>nil\<close> has the key \<open>?\<close>.
\<close>

fun formatExample :: "(rat \<Rightarrow> string) \<Rightarrow> gval \<Rightarrow> string" where
  "formatExample floatKey (VString val) = ''s:'' @ val"
| "formatExample floatKey (VFloat val) = ''n:'' @ floatKey val"
| "formatExample floatKey (VBool val) = (if val then ''b:true'' else ''b:false'')"
| "formatExample floatKey VNil = ''null''"
| "formatExample floatKey v = ''?''"

definition addExample ::
  "(rat \<Rightarrow> string) \<Rightarrow> nat \<Rightarrow> gval \<Rightarrow> string list \<times> gval list \<Rightarrow> string list \<times> gval list" where
  \<comment> \<open>the closure \<open>addExample\<close> of \<open>mergeExamples\<close>; the state is \<open>(seen, result)\<close>\<close>
  "addExample floatKey maxN ex st =
     (if length (snd st) \<ge> maxN then st
      else
        (let key = formatExample floatKey ex
         in if key \<notin> set (fst st) then (key # fst st, snd st @ [ex]) else st))"

definition mergeExamples :: "(rat \<Rightarrow> string) \<Rightarrow> gval list \<Rightarrow> gval list \<Rightarrow> nat \<Rightarrow> gval list" where
  "mergeExamples floatKey a b maxN =
     snd (fold (addExample floatKey maxN) b (fold (addExample floatKey maxN) a ([], [])))"

definition propNames :: "SchemaNode \<Rightarrow> SchemaNode \<Rightarrow> string list" where
  \<comment> \<open>the keys of the set \<open>propNames\<close>: those of \<open>a.Properties\<close>, then those of
      \<open>b.Properties\<close> not among them\<close>
  "propNames a b =
     map fst (SchemaNode.Properties a) @
     filter (\<lambda>name. map_of (SchemaNode.Properties a) name = None)
       (map fst (SchemaNode.Properties b))"

lemma size_map_of_SchemaNode:
  "map_of ps name = Some (x :: SchemaNode) \<Longrightarrow>
   size x < Suc (size_list (size_prod (\<lambda>_. 0) size) ps)"
  using size_prop_SchemaNode[of "(name, x)" ps] by (auto dest: map_of_SomeD)

text \<open>
  \<open>MergeSchemas\<close> takes two pointers. \<open>mergeNodes\<close> is its body for two nodes that are
  not \<open>nil\<close>; the recursive calls on items and properties, where one side may be \<open>nil\<close>,
  are written out by cases. A property name is drawn from one of the two maps, so the
  case of a name that is in neither map does not occur; it is given the zero node.
\<close>

function mergeNodes :: "(rat \<Rightarrow> string) \<Rightarrow> SchemaNode \<Rightarrow> SchemaNode \<Rightarrow> SchemaNode" where
  "mergeNodes floatKey a b =
     (let isArray = (SchemaNode.Type a = TypeArray \<or> SchemaNode.Type b = TypeArray);
          isObject = (SchemaNode.Type a = TypeObject \<or> SchemaNode.Type b = TypeObject)
      in SchemaNode
           (if isObject then TypeObject
            else if isArray then TypeArray
            else mergeTypes (SchemaNode.Type a) (SchemaNode.Type b))
           (if SchemaNode.Format a \<noteq> [] then SchemaNode.Format a
            else if SchemaNode.Format b \<noteq> [] then SchemaNode.Format b
            else [])
           (if isObject
            then map (\<lambda>name.
                        (name,
                         case map_of (SchemaNode.Properties a) name of
                           None \<Rightarrow>
                             (case map_of (SchemaNode.Properties b) name of
                                None \<Rightarrow> SchemaNode [] [] [] None [] False [] []
                              | Some propB \<Rightarrow> propB)
                         | Some propA \<Rightarrow>
                             (case map_of (SchemaNode.Properties b) name of
                                None \<Rightarrow> propA
                              | Some propB \<Rightarrow> mergeNodes floatKey propA propB)))
                   (propNames a b)
            else [])
           (if isArray
            then (case SchemaNode.Items a of
                    None \<Rightarrow> SchemaNode.Items b
                  | Some itemsA \<Rightarrow>
                      (case SchemaNode.Items b of
                         None \<Rightarrow> Some itemsA
                       | Some itemsB \<Rightarrow> Some (mergeNodes floatKey itemsA itemsB)))
            else None)
           (if isObject
            then sort (filter (\<lambda>r. r \<in> set (SchemaNode.Required a)) (SchemaNode.Required b))
            else [])
           (SchemaNode.Nullable a \<or> SchemaNode.Nullable b)
           (mergeExamples floatKey (SchemaNode.Examples a) (SchemaNode.Examples b) 5)
           (if length (SchemaNode.Enum a) > 0 \<and> length (SchemaNode.Enum b) > 0
            then sort (filter (\<lambda>e. e \<in> set (SchemaNode.Enum a)) (SchemaNode.Enum b))
            else []))"
  by pat_completeness auto
termination
proof (relation "measure (\<lambda>(k, a, b). size a + size b)", goal_cases)
  case 1
  show ?case by simp
next
  case (2 floatKey a b isArray isObject name propA propB)
  then have A: "map_of (SchemaNode.Properties a) name = Some propA"
    and B: "map_of (SchemaNode.Properties b) name = Some propB"
    by simp_all
  from size_map_of_SchemaNode[OF A] size_map_of_SchemaNode[OF B]
  show ?case by (cases a; cases b) simp
next
  case (3 floatKey a b isArray isObject itemsA itemsB)
  then show ?case by (cases a; cases b) simp
qed

declare mergeNodes.simps [simp del]


section \<open>types.go and the endpoint clusterer\<close>

record BodyData =
  ContentType :: string
  Schema :: SchemaStore

definition NewBodyData :: "string \<Rightarrow> BodyData" where
  "NewBodyData contentType = \<lparr>ContentType = contentType, Schema = NewSchemaStore\<rparr>"

record ResponseData =
  StatusCode :: int
  ContentType :: string
  Headers :: "(string \<times> ParamData) list"
  Body :: SchemaStore

definition NewResponseData :: "int \<Rightarrow> ResponseData" where
  "NewResponseData statusCode =
     \<lparr>StatusCode = statusCode, ContentType = [], Headers = [], Body = NewSchemaStore\<rparr>"

record EndpointData =
  Method :: string
  PathTemplate :: string
  PathParams :: "(string \<times> ParamData) list"
  QueryParams :: "(string \<times> ParamData) list"
  HeaderParams :: "(string \<times> ParamData) list"
  RequestBody :: "BodyData option"
  Responses :: "(int \<times> ResponseData) list"
  RequestCount :: int

definition NewEndpointData :: "string \<Rightarrow> string \<Rightarrow> EndpointData" where
  "NewEndpointData method pathTemplate =
     \<lparr>Method = method, PathTemplate = pathTemplate, PathParams = [], QueryParams = [],
      HeaderParams = [], RequestBody = None, Responses = [], RequestCount = 0\<rparr>"

text \<open>
  The detected security schemes, pagination parameters and rate-limit headers are kept
  by three detectors with state of their own; they read the record and never touch the
  endpoints, hosts or schemes, and are left out of the clusterer and of its result.
\<close>

record InferenceResult =
  Endpoints :: "(string \<times> EndpointData) list"
  Hosts :: "string list"
  Schemes :: "string list"

definition NewInferenceResult :: InferenceResult where
  "NewInferenceResult = \<lparr>Endpoints = [], Hosts = [], Schemes = []\<rparr>"

record EndpointClusterer =
  pathInferrer :: PathInferrer
  endpoints :: "(string \<times> EndpointData) list"
  hosts :: "(string \<times> bool) list"
  schemes :: "(string \<times> bool) list"

definition NewEndpointClusterer :: EndpointClusterer where
  "NewEndpointClusterer =
     \<lparr>pathInferrer = NewPathInferrer, endpoints = [], hosts = [], schemes = []\<rparr>"

definition upper_byte :: "char \<Rightarrow> char" where
  "upper_byte c = (case map_of (zip lower upper) c of Some u \<Rightarrow> u | None \<Rightarrow> c)"

definition ToUpper :: "string \<Rightarrow> string" where
  \<comment> \<open>Go's \<open>strings.ToUpper\<close> on ASCII text; bytes outside ASCII are left as they are\<close>
  "ToUpper s = map upper_byte s"

definition EndpointKey :: "string \<Rightarrow> string \<Rightarrow> string" where
  "EndpointKey method pathTemplate = ToUpper method @ '' '' @ pathTemplate"

definition excludedHeaders :: "string list" where
  "excludedHeaders =
    [''content-length'', ''content-type'', ''date'', ''server'', ''connection'', ''keep-alive'',
     ''transfer-encoding'', ''accept'', ''accept-encoding'', ''accept-language'',
     ''user-agent'', ''host'', ''cache-control'', ''pragma'', ''expires'', ''x-request-id'',
     ''x-correlation-id'', ''x-trace-id'', ''x-forwarded-for'', ''x-forwarded-proto'',
     ''x-forwarded-host'', ''x-real-ip'', ''cf-ray'', ''cf-connecting-ip'', ''cf-ipcountry'',
     ''cf-visitor'', ''cf-request-id'', ''x-amzn-requestid'', ''x-amzn-trace-id'', ''x-cache'',
     ''x-cache-hits'', ''x-served-by'', ''x-timer'', ''vary'', ''etag'', ''last-modified'',
     ''if-none-match'', ''if-modified-since'', ''access-control-allow-origin'',
     ''access-control-allow-methods'', ''access-control-allow-headers'',
     ''access-control-allow-credentials'', ''access-control-max-age'',
     ''access-control-expose-headers'']"

definition isExcludedHeader :: "string \<Rightarrow> bool" where
  "isExcludedHeader name \<longleftrightarrow> ToLower name \<in> set excludedHeaders"

text \<open>
  The arguments of \<open>AddRecord\<close>; an empty string is an argument that was not given.
  The argument \<open>method\<close> is the field \<open>method'\<close>.
\<close>

record RecordArgs =
  method' :: string
  path :: string
  pathTemplate :: string
  pathParams :: "(string \<times> string) list"
  query :: "(string \<times> gval) list"
  headers :: "(string \<times> string) list"
  requestBody :: gval
  requestContentType :: string
  status :: int
  responseBody :: gval
  responseContentType :: string
  responseHeaders :: "(string \<times> string) list"
  host :: string
  scheme :: string

definition addParamValue ::
  "bool \<Rightarrow> string \<Rightarrow> gval \<Rightarrow> (string \<times> ParamData) list \<Rightarrow> (string \<times> ParamData) list" where
  \<comment> \<open>one round of the loops over parameters: look the name up, create the aggregator
      with the given \<open>Required\<close> if it is new, and add the value\<close>
  "addParamValue required name value ps =
     (let param = (case map_of ps name of
                     Some existing \<Rightarrow> existing
                   | None \<Rightarrow> (NewParamData name)\<lparr>Required := required\<rparr>)
      in AList.update name (ParamData_AddValue param value) ps)"

definition processPathParams :: "(string \<times> string) list \<Rightarrow> EndpointData \<Rightarrow> EndpointData" where
  "processPathParams inferredParams endpoint =
     endpoint\<lparr>PathParams :=
       fold (\<lambda>nv. addParamValue True (fst nv) (VString (snd nv))) inferredParams
         (PathParams endpoint)\<rparr>"

definition processQueryParams :: "(string \<times> gval) list \<Rightarrow> EndpointData \<Rightarrow> EndpointData" where
  "processQueryParams q endpoint =
     endpoint\<lparr>QueryParams :=
       fold (\<lambda>nv. addParamValue False (fst nv) (snd nv)) q (QueryParams endpoint)\<rparr>"

definition updateQueryOptionality :: "(string \<times> gval) list \<Rightarrow> EndpointData \<Rightarrow> EndpointData" where
  "updateQueryOptionality q endpoint =
     endpoint\<lparr>QueryParams :=
       map (\<lambda>np. if map_of q (fst np) = None then (fst np, (snd np)\<lparr>Required := False\<rparr>)
                  else np)
         (QueryParams endpoint)\<rparr>"

definition processHeaderParams :: "(string \<times> string) list \<Rightarrow> EndpointData \<Rightarrow> EndpointData" where
  "processHeaderParams hs endpoint =
     endpoint\<lparr>HeaderParams :=
       fold (\<lambda>nv ps. if isExcludedHeader (fst nv) then ps
                      else addParamValue False (fst nv) (VString (snd nv)) ps)
         hs (HeaderParams endpoint)\<rparr>"

definition processRequestBody :: "gval \<Rightarrow> string \<Rightarrow> EndpointData \<Rightarrow> EndpointData" where
  "processRequestBody body contentType endpoint =
     (if body \<noteq> VNil then
        (let bd = (case RequestBody endpoint of
                     Some existing \<Rightarrow> existing
                   | None \<Rightarrow>
                       NewBodyData (if contentType = [] then ''application/json'' else contentType))
         in endpoint\<lparr>RequestBody := Some (bd\<lparr>Schema := ProcessBody (Schema bd) body\<rparr>)\<rparr>)
      else endpoint)"

definition processResponse ::
  "int \<Rightarrow> gval \<Rightarrow> string \<Rightarrow> (string \<times> string) list \<Rightarrow> EndpointData \<Rightarrow> EndpointData" where
  "processResponse st body contentType hs endpoint =
     (if st > 0 then
        (let resp0 = (case map_of (Responses endpoint) st of
                        Some existing \<Rightarrow> existing
                      | None \<Rightarrow>
                          (NewResponseData st)\<lparr>ResponseData.ContentType :=
                             (if contentType \<noteq> [] then contentType else ''application/json'')\<rparr>);
             resp1 = (if body \<noteq> VNil then resp0\<lparr>Body := ProcessBody (Body resp0) body\<rparr>
                      else resp0);
             resp2 = resp1\<lparr>Headers :=
                       fold (\<lambda>nv ps. if isExcludedHeader (fst nv) then ps
                                      else addParamValue True (fst nv) (VString (snd nv)) ps)
                         hs (Headers resp1)\<rparr>
         in endpoint\<lparr>Responses := AList.update st resp2 (Responses endpoint)\<rparr>)
      else endpoint)"

definition trackHostScheme :: "EndpointClusterer \<Rightarrow> RecordArgs \<Rightarrow> EndpointClusterer" where
  \<comment> \<open>\<open>// Track host and scheme\<close>\<close>
  "trackHostScheme c r =
     (let c1 = (if host r \<noteq> [] then c\<lparr>hosts := AList.update (host r) True (hosts c)\<rparr> else c)
      in if scheme r \<noteq> [] then c1\<lparr>schemes := AList.update (scheme r) True (schemes c1)\<rparr>
         else c1)"

definition updateEndpoint ::
  "RecordArgs \<Rightarrow> (string \<times> string) list \<Rightarrow> EndpointData \<Rightarrow> EndpointData" where
  \<comment> \<open>what \<open>AddRecord\<close> does to the endpoint of the record, from \<open>endpoint.RequestCount++\<close> on\<close>
  "updateEndpoint r inferredParams endpoint0 =
     (let endpoint1 = endpoint0\<lparr>RequestCount := RequestCount endpoint0 + 1\<rparr>;
          endpoint2 = processPathParams inferredParams endpoint1;
          endpoint3 = processQueryParams (query r) endpoint2;
          endpoint4 = updateQueryOptionality (query r) endpoint3;
          endpoint5 = processHeaderParams (headers r) endpoint4;
          endpoint6 = processRequestBody (requestBody r) (requestContentType r) endpoint5
      in processResponse (status r) (responseBody r) (responseContentType r)
           (responseHeaders r) endpoint6)"

definition AddRecord :: "EndpointClusterer \<Rightarrow> RecordArgs \<Rightarrow> EndpointClusterer" where
  "AddRecord c r =
     (let c2 = trackHostScheme c r;
          inferred = (if pathTemplate r = [] then InferTemplate (pathInferrer c2) (path r)
                      else (pathTemplate r, pathParams r));
          key = EndpointKey (method' r) (fst inferred);
          endpoint0 = (case map_of (endpoints c2) key of
                         Some existing \<Rightarrow> existing
                       | None \<Rightarrow> NewEndpointData (method' r) (fst inferred))
      in c2\<lparr>endpoints :=
              AList.update key (updateEndpoint r (snd inferred) endpoint0) (endpoints c2)\<rparr>)"

definition Finalize :: "EndpointClusterer \<Rightarrow> EndpointClusterer" where
  "Finalize c =
     c\<lparr>endpoints :=
       map (\<lambda>ke. (fst ke,
              (snd ke)\<lparr>RequestBody :=
                          map_option (\<lambda>bd. bd\<lparr>Schema := FinalizeOptional (Schema bd)\<rparr>)
                            (RequestBody (snd ke)),
                        Responses :=
                          map (\<lambda>sr. (fst sr, (snd sr)\<lparr>Body := FinalizeOptional (Body (snd sr))\<rparr>))
                            (Responses (snd ke))\<rparr>))
         (endpoints c)\<rparr>"

definition GetResult :: "EndpointClusterer \<Rightarrow> InferenceResult" where
  \<comment> \<open>hosts and schemes are appended in the order in which the maps are iterated\<close>
  "GetResult c =
     \<lparr>Endpoints = fold (\<lambda>ke es. AList.update (fst ke) (snd ke) es) (endpoints c) [],
      Hosts = fold (\<lambda>h acc. acc @ [fst h]) (hosts c) [],
      Schemes = fold (\<lambda>s acc. acc @ [fst s]) (schemes c) []\<rparr>"

section \<open>openapi/generator.go: the server list\<close>




section \<open>ir/reader.go: reading records from a file\<close>

text \<open>
  Decoding JSON into records is the work of package \<open>encoding/json\<close>; the three ways
  in which the reader calls it are the fields of a \<open>JSON\<close> record and a parameter of the
  reader. Each returns the decoded value or the message of the decoding error. The
  type \<open>'r\<close> is that of an \<open>IRRecord\<close>.
\<close>

record 'r JSON =
  unmarshalRecord :: "string \<Rightarrow> string + 'r"
  decodeBatch :: "string \<Rightarrow> string + string \<times> 'r list"
  unmarshalRecords :: "string \<Rightarrow> string + 'r list"

datatype read_error =
    OpenError
  | DecodeBatchError string
  | UnsupportedVersion string
  | LineError nat string
  | ScanError
  | EmptyInput
  | DecodeArrayError string
  | UnrecognizedFormat

definition ir_Version :: string where
  \<comment> \<open>the constant \<open>Version\<close> of package \<open>ir\<close>\<close>
  "ir_Version = ''ir.v1''"

definition spaceEncodings :: "string list" where
  \<comment> \<open>the UTF-8 encodings of the code points for which \<open>unicode.IsSpace\<close> holds:
      U+0009 to U+000D, U+0020, U+0085, U+00A0, U+1680, U+2000 to U+200A, U+2028,
      U+2029, U+202F, U+205F and U+3000\<close>
  "spaceEncodings =
     [[CHR 0x09], [CHR 0x0A], [CHR 0x0B], [CHR 0x0C], [CHR 0x0D], [CHR 0x20],
      [CHR 0xC2, CHR 0x85], [CHR 0xC2, CHR 0xA0], [CHR 0xE1, CHR 0x9A, CHR 0x80],
      [CHR 0xE2, CHR 0x80, CHR 0x80], [CHR 0xE2, CHR 0x80, CHR 0x81],
      [CHR 0xE2, CHR 0x80, CHR 0x82], [CHR 0xE2, CHR 0x80, CHR 0x83],
      [CHR 0xE2, CHR 0x80, CHR 0x84], [CHR 0xE2, CHR 0x80, CHR 0x85],
      [CHR 0xE2, CHR 0x80, CHR 0x86], [CHR 0xE2, CHR 0x80, CHR 0x87],
      [CHR 0xE2, CHR 0x80, CHR 0x88], [CHR 0xE2, CHR 0x80, CHR 0x89],
      [CHR 0xE2, CHR 0x80, CHR 0x8A], [CHR 0xE2, CHR 0x80, CHR 0xA8],
      [CHR 0xE2, CHR 0x80, CHR 0xA9], [CHR 0xE2, CHR 0x80, CHR 0xAF],
      [CHR 0xE2, CHR 0x81, CHR 0x9F], [CHR 0xE3, CHR 0x80, CHR 0x80]]"

lemma spaceEncodings_nonempty: "e \<in> set spaceEncodings \<Longrightarrow> e \<noteq> []"
  by (auto simp: spaceEncodings_def)

function TrimLeftSpace :: "string \<Rightarrow> string" where
  "TrimLeftSpace s =
     (case find (\<lambda>e. prefix e s) spaceEncodings of
        None \<Rightarrow> s
      | Some e \<Rightarrow> TrimLeftSpace (drop (length e) s))"
  by pat_completeness auto
termination
proof (relation "measure length", goal_cases)
  case 1
  show ?case by simp
next
  case (2 s e)
  then have "e \<in> set spaceEncodings" and "prefix e s"
    by (auto simp: find_Some_iff)
  with spaceEncodings_nonempty[of e] show ?case
    by (cases s) (auto simp: prefix_def)
qed

declare TrimLeftSpace.simps [simp del]

function TrimRightSpace :: "string \<Rightarrow> string" where
  "TrimRightSpace s =
     (case find (\<lambda>e. suffix e s) spaceEncodings of
        None \<Rightarrow> s
      | Some e \<Rightarrow> TrimRightSpace (take (length s - length e) s))"
  by pat_completeness auto
termination
proof (relation "measure length", goal_cases)
  case 1
  show ?case by simp
next
  case (2 s e)
  then have "e \<in> set spaceEncodings" and "suffix e s"
    by (auto simp: find_Some_iff)
  with spaceEncodings_nonempty[of e] show ?case
    by (cases s) (auto simp: suffix_def)
qed

declare TrimRightSpace.simps [simp del]

definition TrimSpace :: "string \<Rightarrow> string" where
  \<comment> \<open>\<open>strings.TrimSpace\<close>: leading and trailing white space, as defined by Unicode, removed\<close>
  "TrimSpace s = TrimRightSpace (TrimLeftSpace s)"

definition Contains :: "string \<Rightarrow> string \<Rightarrow> bool" where
  "Contains s substr = list_ex (prefix substr) (suffixes s)"

definition Ext :: "string \<Rightarrow> string" where
  \<comment> \<open>\<open>filepath.Ext\<close>: the suffix from the last dot of the last element of the path\<close>
  "Ext p =
     (let element = takeWhile (\<lambda>c. c \<noteq> CHR ''/'') (rev p)
      in if CHR ''.'' \<in> set element
         then CHR ''.'' # rev (takeWhile (\<lambda>c. c \<noteq> CHR ''.'') element)
         else [])"

definition dropCR :: "string \<Rightarrow> string" where
  "dropCR line = (if line \<noteq> [] \<and> last line = CHR 0x0D then butlast line else line)"

definition ScanLines :: "string \<Rightarrow> string list" where
  \<comment> \<open>the tokens of a \<open>bufio.Scanner\<close> with its default split function\<close>
  "ScanLines data =
     (let ls = Split data (CHR 0x0A)
      in map dropCR (if last ls = [] then butlast ls else ls))"

definition maxLine :: nat where
  "maxLine = 1024 * 1024"

definition ReadBatch :: "'r JSON \<Rightarrow> string \<Rightarrow> read_error + 'r list" where
  "ReadBatch js data =
     (case decodeBatch js data of
        Inl err \<Rightarrow> Inl (DecodeBatchError err)
      | Inr batch \<Rightarrow>
          if fst batch \<noteq> ir_Version then Inl (UnsupportedVersion (fst batch))
          else Inr (snd batch))"

fun ReadNDJSON_loop :: "'r JSON \<Rightarrow> string list \<Rightarrow> nat \<Rightarrow> 'r list \<Rightarrow> read_error + 'r list" where
  \<comment> \<open>the loop \<open>for scanner.Scan()\<close>; a line that does not fit the buffer of 1 MiB ends
      the scan with an error\<close>
  "ReadNDJSON_loop js [] lineNum records = Inr records"
| "ReadNDJSON_loop js (text # rest) lineNum records =
     (if length text \<ge> maxLine then Inl ScanError
      else
        (let lineNum' = lineNum + 1;
             line = TrimSpace text
         in if line = [] then ReadNDJSON_loop js rest lineNum' records
            else
              (case unmarshalRecord js line of
                 Inl err \<Rightarrow> Inl (LineError lineNum' err)
               | Inr record \<Rightarrow> ReadNDJSON_loop js rest lineNum' (records @ [record]))))"

definition ReadNDJSON :: "'r JSON \<Rightarrow> string \<Rightarrow> read_error + 'r list" where
  "ReadNDJSON js data = ReadNDJSON_loop js (ScanLines data) 0 []"

definition readAutoDetect :: "'r JSON \<Rightarrow> string \<Rightarrow> read_error + 'r list" where
  "readAutoDetect js data =
     (let trimmed = TrimSpace data
      in if length trimmed = 0 then Inl EmptyInput
         else if hd trimmed = CHR ''{'' then
           (if Contains (take (min 100 (length trimmed)) trimmed) (CHR 0x22 # ''version'' @ [CHR 0x22])
            then ReadBatch js data
            else ReadNDJSON js data)
         else if hd trimmed = CHR ''['' then
           (case unmarshalRecords js data of
              Inl err \<Rightarrow> Inl (DecodeArrayError err)
            | Inr records \<Rightarrow> Inr records)
         else Inl UnrecognizedFormat)"

definition ReadFile :: "'r JSON \<Rightarrow> string \<Rightarrow> string option \<Rightarrow> read_error + 'r list" where
  \<comment> \<open>the third argument is the content of the file at the path, \<open>None\<close> if it cannot
      be opened\<close>
  "ReadFile js p file =
     (case file of
        None \<Rightarrow> Inl OpenError
      | Some data \<Rightarrow>
          (let ext = ToLower (Ext p)
           in if ext = ''.ndjson'' then ReadNDJSON js data
              else if ext = ''.json'' then ReadBatch js data
              else readAutoDetect js data))"

definition BOM :: string where
  \<comment> \<open>the UTF-8 encoding of the byte-order mark U+FEFF\<close>
  "BOM = [CHR 0xEF, CHR 0xBB, CHR 0xBF]"

definition skipBOM :: "string \<Rightarrow> string" where
  \<comment> \<open>package \<open>har\<close>, called by \<open>har.Parse\<close> before it decodes\<close>
  "skipBOM data =
     (if length data \<ge> 3 \<and> data ! 0 = CHR 0xEF \<and> data ! 1 = CHR 0xBB \<and> data ! 2 = CHR 0xBF
      then drop 3 data else data)"

section \<open>ir: the channel writer and the asynchronous writer\<close>

text \<open>
  A call that sends on a channel returns when the channel takes the record and blocks
  while its buffer is full. The state of a channel is the list of records sent and
  not yet received. An \<open>error\<close> is \<open>None\<close> for \<open>nil\<close>.
\<close>

datatype ir_error = ErrChannelClosed | MarshalError

datatype 's outcome = Returned "ir_error option" 's | Blocked

record 'r ChannelWriter =
  ch :: "'r list"
  capacity :: nat
  closed :: bool

definition NewChannelWriter :: "nat \<Rightarrow> 'r ChannelWriter" where
  \<comment> \<open>the argument is the buffer size, 0 for the default unbuffered channel\<close>
  "NewChannelWriter n = \<lparr>ch = [], capacity = n, closed = False\<rparr>"

definition ChannelWriter_Write :: "'r ChannelWriter \<Rightarrow> 'r \<Rightarrow> 'r ChannelWriter outcome" where
  "ChannelWriter_Write w record =
     (if closed w then Returned (Some ErrChannelClosed) w
      else if length (ch w) < capacity w then Returned None (w\<lparr>ch := ch w @ [record]\<rparr>)
      else Blocked)"

definition ChannelWriter_Flush :: "'r ChannelWriter \<Rightarrow> ir_error option \<times> 'r ChannelWriter" where
  "ChannelWriter_Flush w = (None, w)"

definition ChannelWriter_Close :: "'r ChannelWriter \<Rightarrow> ir_error option \<times> 'r ChannelWriter" where
  "ChannelWriter_Close w = (if closed w then (None, w) else (None, w\<lparr>closed := True\<rparr>))"

text \<open>
  The writer of NDJSON lines under the asynchronous writer: the records written, in
  order, and their count. \<open>json.Marshal\<close> may refuse a record; failures of the
  underlying file are not modelled.
\<close>

record 'r NDJSONWriter =
  written :: "'r list"
  count :: int

definition NewNDJSONWriter :: "'r NDJSONWriter" where
  "NewNDJSONWriter = \<lparr>written = [], count = 0\<rparr>"

definition NDJSONWriter_Write ::
  "('r \<Rightarrow> bool) \<Rightarrow> 'r NDJSONWriter \<Rightarrow> 'r \<Rightarrow> ir_error option \<times> 'r NDJSONWriter" where
  \<comment> \<open>the first argument tells whether \<open>json.Marshal\<close> accepts the record\<close>
  "NDJSONWriter_Write marshals w record =
     (if marshals record
      then (None, w\<lparr>written := written w @ [record], count := count w + 1\<rparr>)
      else (Some MarshalError, w))"

record 'r AsyncNDJSONWriter =
  writer :: "'r NDJSONWriter"
  pending :: "'r list"
  bufferSize :: nat
  closed :: bool
  handled :: "ir_error list"

definition NewAsyncNDJSONWriter :: "'r NDJSONWriter \<Rightarrow> nat \<Rightarrow> 'r AsyncNDJSONWriter" where
  "NewAsyncNDJSONWriter w n =
     \<lparr>writer = w, pending = [], bufferSize = n, closed = False, handled = []\<rparr>"

definition writeLoop_step :: "('r \<Rightarrow> bool) \<Rightarrow> 'r AsyncNDJSONWriter \<Rightarrow> 'r AsyncNDJSONWriter" where
  \<comment> \<open>the background task receives one record and writes it; an error goes to the
      error handler\<close>
  "writeLoop_step marshals w =
     (case pending w of
        [] \<Rightarrow> w
      | record # rest \<Rightarrow>
          (case NDJSONWriter_Write marshals (writer w) record of
             (None, nw) \<Rightarrow> w\<lparr>writer := nw, pending := rest\<rparr>
           | (Some err, nw) \<Rightarrow> w\<lparr>writer := nw, pending := rest, handled := handled w @ [err]\<rparr>))"

fun drainPending :: "('r \<Rightarrow> bool) \<Rightarrow> nat \<Rightarrow> 'r AsyncNDJSONWriter \<Rightarrow> 'r AsyncNDJSONWriter" where
  \<comment> \<open>the second argument is the number of records to receive\<close>
  "drainPending marshals 0 w = w"
| "drainPending marshals (Suc n) w = drainPending marshals n (writeLoop_step marshals w)"

definition AsyncNDJSONWriter_Write ::
  "'r AsyncNDJSONWriter \<Rightarrow> 'r \<Rightarrow> 'r AsyncNDJSONWriter outcome" where
  "AsyncNDJSONWriter_Write w record =
     (if AsyncNDJSONWriter.closed w then Returned None w
      else if length (pending w) < bufferSize w
      then Returned None (w\<lparr>pending := pending w @ [record]\<rparr>)
      else Blocked)"

definition AsyncNDJSONWriter_Close ::
  "('r \<Rightarrow> bool) \<Rightarrow> 'r AsyncNDJSONWriter \<Rightarrow> ir_error option \<times> 'r AsyncNDJSONWriter" where
  \<comment> \<open>closing waits for the background task, which writes what is pending; closing the
      NDJSON writer under it flushes and returns no error here\<close>
  "AsyncNDJSONWriter_Close marshals w =
     (if AsyncNDJSONWriter.closed w then (None, w)
      else
        (let w1 = w\<lparr>AsyncNDJSONWriter.closed := True\<rparr>
         in (None, drainPending marshals (length (pending w1)) w1)))"

section \<open>Notions used in the statements\<close>

definition marshalsAll :: "nat \<Rightarrow> bool" where
  \<comment> \<open>records that \<open>json.Marshal\<close> always accepts, here natural numbers\<close>
  "marshalsAll record = True"

definition queryRequired :: "EndpointClusterer \<Rightarrow> string \<Rightarrow> string \<Rightarrow> bool option" where
  \<comment> \<open>the \<open>Required\<close> flag of a query parameter of an endpoint, if both exist\<close>
  "queryRequired c key name =
     (case map_of (endpoints c) key of
        None \<Rightarrow> None
      | Some endpoint \<Rightarrow>
          (case map_of (QueryParams endpoint) name of
             None \<Rightarrow> None
           | Some param \<Rightarrow> Some (ParamData.Required param)))"

definition allOptional :: "(string \<times> ParamData) list \<Rightarrow> bool" where
  \<comment> \<open>no parameter of the map is marked required\<close>
  "allOptional ps \<longleftrightarrow> list_all (\<lambda>np. \<not> ParamData.Required (snd np)) ps"

definition endpointsOptional :: "EndpointClusterer \<Rightarrow> bool" where
  \<comment> \<open>no query parameter of any endpoint is marked required\<close>
  "endpointsOptional c \<longleftrightarrow> list_all (\<lambda>ke. allOptional (QueryParams (snd ke))) (endpoints c)"







definition observed :: "gval list \<Rightarrow> SchemaStore" where
  \<comment> \<open>the store after each body has been folded into a new store and the store has been
      finalized\<close>
  "observed bodies = FinalizeOptional (foldl ProcessBody NewSchemaStore bodies)"




section \<open>Nullable types in the generated schema\<close>

lemma convertNode_Type:
  "Schema.Type (convertNode version node) =
     (if SchemaNode.Nullable node \<and> version = Version31
      then TypeList [SchemaNode.Type node, ''null'']
      else TypeStr (SchemaNode.Type node))"
  by (subst convertNode.simps) simp

text \<open>
  C8. For a schema node whose nullable flag is set, the conversion to an OpenAPI schema
  gives the type as the two-element array of the node's type and \<open>null\<close> exactly when the
  generator's version is 3.1.0; under 3.0.3 and 3.2.0 the plain type is given and the
  nullable flag leaves no trace.
\<close>

theorem nullable_type_array_only_31:
  assumes "SchemaNode.Nullable node"
  shows "(Schema.Type (convertSchemaNode version (Some node))
            = TypeList [SchemaNode.Type node, ''null''] \<longleftrightarrow> version = ''3.1.0'') \<and>
         Schema.Type (convertSchemaNode ''3.1.0'' (Some node))
            = TypeList [SchemaNode.Type node, ''null''] \<and>
         Schema.Type (convertSchemaNode ''3.0.3'' (Some node)) = TypeStr (SchemaNode.Type node) \<and>
         Schema.Type (convertSchemaNode ''3.2.0'' (Some node)) = TypeStr (SchemaNode.Type node) \<and>
         (version \<noteq> ''3.1.0'' \<longrightarrow>
            convertSchemaNode version (Some node)
              = convertSchemaNode version
                  (Some (SchemaNode (SchemaNode.Type node) (SchemaNode.Format node)
                     (SchemaNode.Properties node) (SchemaNode.Items node)
                     (SchemaNode.Required node) False (SchemaNode.Examples node)
                     (SchemaNode.Enum node))))"
proof -
  have "version \<noteq> ''3.1.0'' \<Longrightarrow>
        convertNode version node
          = convertNode version
              (SchemaNode (SchemaNode.Type node) (SchemaNode.Format node)
                 (SchemaNode.Properties node) (SchemaNode.Items node)
                 (SchemaNode.Required node) False (SchemaNode.Examples node)
                 (SchemaNode.Enum node))"
    by (subst (1 2) convertNode.simps) (simp add: Version31_def)
  with assms show ?thesis
    by (simp add: convertSchemaNode_def convertNode_Type Version31_def)
qed

theorem nullable_type_array_only_31_witness:
  "SchemaNode.Nullable (SchemaNode ''string'' [] [] None [] True [] []) \<and>
   Schema.Type (convertSchemaNode ''3.1.0''
       (Some (SchemaNode ''string'' [] [] None [] True [] [])))
     = TypeList [''string'', ''null''] \<and>
   Schema.Type (convertSchemaNode ''3.0.3''
       (Some (SchemaNode ''string'' [] [] None [] True [] [])))
     = TypeStr ''string''"
  using nullable_type_array_only_31
    [of "SchemaNode ''string'' [] [] None [] True [] []" "''3.1.0''"]
  by simp

section \<open>Parameter types\<close>

lemma ParamData_AddValue_Type:
  "ParamData.Type (ParamData_AddValue p v) =
     (if ParamData.Type p = [] \<or> ParamData.Type p = ''string'' then inferType v
      else mergeTypes (ParamData.Type p) (inferType v))"
  by (simp add: ParamData_AddValue_def Let_def split: gval.splits)

text \<open>
  C10. Whenever the type recorded by a parameter aggregator is the initial default
  \<open>string\<close>, the inferred type of the next value replaces it and is not merged with it.
  So a parameter seen first as a string and then as an integer has type \<open>integer\<close>,
  where the merge rule applied to \<open>string\<close> and \<open>integer\<close> would have kept \<open>string\<close>.
\<close>

theorem param_string_type_replaced:
  "(ParamData.Type p = ''string'' \<longrightarrow> ParamData.Type (ParamData_AddValue p v) = inferType v) \<and>
   ParamData.Type (ParamData_AddValue (ParamData_AddValue (NewParamData name) (VString s)) (VInt i)) = ''integer'' \<and>
   mergeTypes ''string'' ''integer'' = ''string''"
  by (simp add: ParamData_AddValue_Type NewParamData_def TypeString_def TypeInteger_def
      TypeNumber_def mergeTypes_def)

theorem param_string_type_replaced_witness:
  "ParamData.Type (NewParamData ''limit'') = ''string'' \<and>
   ParamData.Type (ParamData_AddValue (NewParamData ''limit'') (VFloat 10)) = ''integer''"
  using param_string_type_replaced [of "NewParamData ''limit''" "VFloat 10"]
  by (simp add: NewParamData_def is_int64_whole_def TypeInteger_def)

section \<open>Path templates\<close>

lemma InferTemplate_users_posts_items_eval:
  "InferTemplate NewPathInferrer ''/users/123/posts/456/items/789''
     = (''/users/{userId}/posts/{postId}/items/{itemId}'',
        [(''userId'', ''123''), (''postId'', ''456''), (''itemId'', ''789'')])"
  by code_simp

text \<open>
  C3. For the path \<open>/users/123/posts/456/items/789\<close> the inferred template is
  \<open>/users/{userId}/posts/{postId}/items/{itemId}\<close>, and the returned parameter map
  sends \<open>userId\<close> to 123, \<open>postId\<close> to 456 and \<open>itemId\<close> to 789 and has no other key.
\<close>

theorem InferTemplate_users_posts_items:
  "fst (InferTemplate NewPathInferrer ''/users/123/posts/456/items/789'')
     = ''/users/{userId}/posts/{postId}/items/{itemId}'' \<and>
   map_of (snd (InferTemplate NewPathInferrer ''/users/123/posts/456/items/789''))
     = [''userId'' \<mapsto> ''123'', ''postId'' \<mapsto> ''456'', ''itemId'' \<mapsto> ''789'']"
  unfolding InferTemplate_users_posts_items_eval
  by (auto simp: fun_eq_iff)

text \<open>
  C4, evaluated where it fails. In \<open>/users/1/users/2/users/3\<close> the name \<open>userId\<close> is
  inferred for three segments. The loop counts the name it has just returned, so after
  the second segment the count of \<open>userId2\<close> is raised and the count of \<open>userId\<close> stays
  at 1: the third segment is named \<open>userId2\<close> again. The template repeats a placeholder
  and the parameter map has lost the value 2.
\<close>

theorem InferTemplate_third_collision_repeats_suffix:
  "InferTemplate NewPathInferrer ''/users/1/users/2/users/3''
     = (''/users/{userId}/users/{userId2}/users/{userId2}'',
        [(''userId'', ''1''), (''userId2'', ''3'')])"
  by code_simp

section \<open>Reading an input that starts with a byte-order mark\<close>

lemma find_Some_mem: "find P xs = Some x \<Longrightarrow> x \<in> set xs \<and> P x"
  by (induction xs) (auto split: if_splits)

lemma spaceEncodings_hd: "e \<in> set spaceEncodings \<Longrightarrow> hd e \<noteq> CHR 0xEF"
  by (auto simp: spaceEncodings_def)

lemma TrimLeftSpace_EF:
  assumes "s \<noteq> []" and "hd s = CHR 0xEF"
  shows "TrimLeftSpace s = s"
proof -
  have "find (\<lambda>e. prefix e s) spaceEncodings = None"
  proof (rule ccontr)
    assume "find (\<lambda>e. prefix e s) spaceEncodings \<noteq> None"
    then obtain e where "e \<in> set spaceEncodings" and "prefix e s"
      by (auto dest: find_Some_mem)
    with spaceEncodings_nonempty[of e] spaceEncodings_hd[of e] assms show False
      by (cases e; cases s) (auto simp: prefix_def)
  qed
  then show ?thesis by (subst TrimLeftSpace.simps) simp
qed

lemma TrimRightSpace_EF:
  "s \<noteq> [] \<Longrightarrow> hd s = CHR 0xEF \<Longrightarrow>
   TrimRightSpace s \<noteq> [] \<and> hd (TrimRightSpace s) = CHR 0xEF"
proof (induction s rule: TrimRightSpace.induct)
  case (1 s)
  show ?case
  proof (cases "find (\<lambda>e. suffix e s) spaceEncodings")
    case None
    with 1 show ?thesis by (subst (1 2) TrimRightSpace.simps) simp
  next
    case (Some e)
    then have e: "e \<in> set spaceEncodings" and "suffix e s"
      by (auto dest: find_Some_mem)
    then obtain p where s: "s = p @ e" by (auto simp: suffix_def)
    have "p \<noteq> []"
      using s "1.prems" spaceEncodings_hd[OF e] by auto
    with s "1.prems" have "take (length s - length e) s \<noteq> []"
      and "hd (take (length s - length e) s) = CHR 0xEF"
      by auto
    from "1.IH"[OF Some this] Some show ?thesis
      by (subst (1 2) TrimRightSpace.simps) simp
  qed
qed

text \<open>
  C6, evaluated where it fails. Whatever follows the byte-order mark, and whatever the
  JSON decoder accepts, an input that starts with the three bytes EF BB BF is refused
  by the format detection with the error for an unrecognized format, and so is a file
  of that content whose name has no extension. The HAR parser of the same repository
  strips the mark before decoding; the record reader does not.
\<close>

theorem readAutoDetect_rejects_BOM:
  "readAutoDetect js (BOM @ rest) = Inl UnrecognizedFormat \<and>
   ReadFile js ''capture'' (Some (BOM @ rest)) = Inl UnrecognizedFormat \<and>
   skipBOM (BOM @ rest) = rest"
proof -
  have "BOM @ rest \<noteq> []" and "hd (BOM @ rest) = CHR 0xEF"
    by (simp_all add: BOM_def)
  then have "TrimSpace (BOM @ rest) \<noteq> [] \<and> hd (TrimSpace (BOM @ rest)) = CHR 0xEF"
    unfolding TrimSpace_def by (simp add: TrimLeftSpace_EF TrimRightSpace_EF)
  then have r: "readAutoDetect js (BOM @ rest) = Inl UnrecognizedFormat"
    by (simp add: readAutoDetect_def Let_def)
  have "Ext ''capture'' = []"
    by (simp add: Ext_def)
  then have "ReadFile js ''capture'' (Some (BOM @ rest)) = readAutoDetect js (BOM @ rest)"
    by (simp add: ReadFile_def ToLower_def)
  with r show ?thesis
    by (simp add: skipBOM_def BOM_def)
qed

section \<open>Writing after close\<close>

lemma writeLoop_step_closed:
  "AsyncNDJSONWriter.closed (writeLoop_step marshals w) = AsyncNDJSONWriter.closed w"
  by (simp add: writeLoop_step_def split: list.splits prod.splits option.splits)

lemma drainPending_closed:
  "AsyncNDJSONWriter.closed (drainPending marshals n w) = AsyncNDJSONWriter.closed w"
  by (induction n arbitrary: w) (simp_all add: writeLoop_step_closed)

lemma AsyncNDJSONWriter_Close_closed:
  "AsyncNDJSONWriter.closed (snd (AsyncNDJSONWriter_Close marshals w))"
  by (simp add: AsyncNDJSONWriter_Close_def Let_def drainPending_closed)

text \<open>
  C9, as stated, fails for the asynchronous writer: a fresh writer with a buffer of
  100 records is closed, and the write that follows returns no error and leaves the
  writer as it was; the record is dropped.
\<close>

theorem async_write_after_close_returns_nil:
  "AsyncNDJSONWriter_Write
     (snd (AsyncNDJSONWriter_Close marshalsAll (NewAsyncNDJSONWriter NewNDJSONWriter 100))) 7
   = Returned None
       \<lparr>writer = \<lparr>written = [], count = 0\<rparr>, pending = [], bufferSize = 100,
        closed = True, handled = []\<rparr>"
  by (simp add: AsyncNDJSONWriter_Write_def AsyncNDJSONWriter_Close_def
      NewAsyncNDJSONWriter_def NewNDJSONWriter_def)

text \<open>
  C9, amended. After \<open>Close\<close>, a write to the channel writer returns
  \<open>ErrChannelClosed\<close>; a write to the asynchronous NDJSON writer returns \<open>nil\<close> and
  changes nothing, so the record is never written. Neither call blocks.
\<close>

theorem write_after_close:
  "ChannelWriter_Write (snd (ChannelWriter_Close cw)) record
     = Returned (Some ErrChannelClosed) (snd (ChannelWriter_Close cw)) \<and>
   AsyncNDJSONWriter_Write (snd (AsyncNDJSONWriter_Close marshals aw)) record
     = Returned None (snd (AsyncNDJSONWriter_Close marshals aw))"
  using AsyncNDJSONWriter_Close_closed[of marshals aw]
  by (simp add: ChannelWriter_Write_def ChannelWriter_Close_def AsyncNDJSONWriter_Write_def)

section \<open>Query parameters are never marked required\<close>

lemma ParamData_AddValue_Required [simp]:
  "ParamData.Required (ParamData_AddValue p v) = ParamData.Required p"
  by (simp add: ParamData_AddValue_def Let_def split: gval.splits)

lemma set_AList_update:
  "set (AList.update k v al) \<subseteq> insert (k, v) (set al)"
  by (induction al) auto

lemma allOptional_update:
  "allOptional ps \<Longrightarrow> \<not> ParamData.Required p \<Longrightarrow> allOptional (AList.update name p ps)"
  using set_AList_update[of name p ps]
  by (auto simp: allOptional_def list_all_iff)

lemma allOptional_lookup:
  "allOptional ps \<Longrightarrow> map_of ps name = Some p \<Longrightarrow> \<not> ParamData.Required p"
  by (force simp: allOptional_def list_all_iff dest!: map_of_SomeD)

lemma allOptional_addParamValue:
  "allOptional ps \<Longrightarrow> allOptional (addParamValue False name value ps)"
  by (auto simp: addParamValue_def Let_def NewParamData_def
      intro!: allOptional_update dest: allOptional_lookup split: option.splits)

lemma allOptional_fold_addParamValue:
  "allOptional ps \<Longrightarrow>
   allOptional (fold (\<lambda>nv. addParamValue False (fst nv) (snd nv)) q ps)"
  by (induction q arbitrary: ps) (simp_all add: allOptional_addParamValue)

lemma allOptional_updateQueryOptionality:
  "allOptional (QueryParams endpoint) \<Longrightarrow>
   allOptional (QueryParams (updateQueryOptionality q endpoint))"
  by (auto simp: updateQueryOptionality_def allOptional_def list_all_iff)

lemma QueryParams_later_steps [simp]:
  "QueryParams (processPathParams ps endpoint) = QueryParams endpoint"
  "QueryParams (processHeaderParams hs endpoint) = QueryParams endpoint"
  "QueryParams (processRequestBody body ct endpoint) = QueryParams endpoint"
  "QueryParams (processResponse st rbody rct rhs endpoint) = QueryParams endpoint"
  by (simp_all add: processPathParams_def processHeaderParams_def processRequestBody_def
      processResponse_def Let_def)

lemma endpoints_trackHostScheme [simp]:
  "endpoints (trackHostScheme c r) = endpoints c"
  by (simp add: trackHostScheme_def Let_def)

lemma allOptional_updateEndpoint:
  assumes "allOptional (QueryParams endpoint0)"
  shows "allOptional (QueryParams (updateEndpoint r inferredParams endpoint0))"
proof -
  have "allOptional
      (QueryParams (updateQueryOptionality (query r)
         (processQueryParams (query r)
            (processPathParams inferredParams
               (endpoint0\<lparr>RequestCount := RequestCount endpoint0 + 1\<rparr>)))))"
    using assms
    by (intro allOptional_updateQueryOptionality)
      (simp add: processQueryParams_def allOptional_fold_addParamValue)
  then show ?thesis
    by (simp add: updateEndpoint_def Let_def)
qed

lemma endpointsOptional_AddRecord:
  assumes "endpointsOptional c"
  shows "endpointsOptional (AddRecord c r)"
proof -
  define inferred where "inferred =
    (if pathTemplate r = [] then InferTemplate (pathInferrer (trackHostScheme c r)) (path r)
     else (pathTemplate r, pathParams r))"
  define key where "key = EndpointKey (method' r) (fst inferred)"
  define endpoint0 where "endpoint0 =
    (case map_of (endpoints c) key of
       Some existing \<Rightarrow> existing
     | None \<Rightarrow> NewEndpointData (method' r) (fst inferred))"
  have "allOptional (QueryParams endpoint0)"
  proof (cases "map_of (endpoints c) key")
    case None
    then show ?thesis
      by (simp add: endpoint0_def NewEndpointData_def allOptional_def)
  next
    case (Some existing)
    then have "(key, existing) \<in> set (endpoints c)"
      by (auto dest: map_of_SomeD)
    with assms Some show ?thesis
      by (force simp: endpoint0_def endpointsOptional_def list_all_iff)
  qed
  then have q: "allOptional (QueryParams (updateEndpoint r (snd inferred) endpoint0))"
    by (rule allOptional_updateEndpoint)
  have "endpoints (AddRecord c r) =
      AList.update key (updateEndpoint r (snd inferred) endpoint0) (endpoints c)"
    unfolding AddRecord_def Let_def inferred_def key_def endpoint0_def by simp
  then show ?thesis
    using q assms set_AList_update[of key "updateEndpoint r (snd inferred) endpoint0" "endpoints c"]
    by (auto simp: endpointsOptional_def list_all_iff)
qed

lemma endpointsOptional_foldl:
  "endpointsOptional c \<Longrightarrow> endpointsOptional (foldl AddRecord c rs)"
  by (induction rs arbitrary: c) (simp_all add: endpointsOptional_AddRecord)

lemma endpointsOptional_queryRequired:
  assumes "endpointsOptional c"
  shows "queryRequired c key name \<noteq> Some True"
proof (cases "map_of (endpoints c) key")
  case None
  then show ?thesis by (simp add: queryRequired_def)
next
  case (Some endpoint)
  then have "(key, endpoint) \<in> set (endpoints c)"
    by (auto dest: map_of_SomeD)
  with assms have "allOptional (QueryParams endpoint)"
    by (force simp: endpointsOptional_def list_all_iff)
  with Some show ?thesis
    by (auto simp: queryRequired_def dest: allOptional_lookup split: option.splits)
qed

text \<open>
  C5, as stated, fails on a single record: \<open>GET /users?limit=10\<close> is the only record of
  its endpoint, so the query key \<open>limit\<close> is present on every record of the endpoint,
  and the parameter is not marked required.
\<close>

theorem query_key_on_every_record_not_required:
  "queryRequired
     (AddRecord NewEndpointClusterer
        \<lparr>method' = ''GET'', path = ''/users'', pathTemplate = ''/users'', pathParams = [],
         query = [(''limit'', VString ''10'')], headers = [], requestBody = VNil,
         requestContentType = [], status = 200, responseBody = VNil,
         responseContentType = [], responseHeaders = [], host = [], scheme = []\<rparr>)
     ''GET /users'' ''limit''
   = Some False"
  by code_simp

text \<open>
  C5, amended. After the clusterer has processed any sequence of records, no query
  parameter of any endpoint is marked required: a query parameter is created as
  optional, a record without the key sets the flag to false again, and nothing sets
  it to true.
\<close>

theorem query_parameter_never_required:
  "queryRequired (foldl AddRecord NewEndpointClusterer rs) key name \<noteq> Some True"
proof -
  have "endpointsOptional NewEndpointClusterer"
    by (simp add: endpointsOptional_def NewEndpointClusterer_def)
  then show ?thesis
    by (intro endpointsOptional_queryRequired endpointsOptional_foldl)
qed

section \<open>The server list of the generated document\<close>







section \<open>Laws of schema merge\<close>






lemma mergeNodes_Required:
  "SchemaNode.Required (mergeNodes k a b) =
     (if SchemaNode.Type a = TypeObject \<or> SchemaNode.Type b = TypeObject
      then sort (filter (\<lambda>r. r \<in> set (SchemaNode.Required a)) (SchemaNode.Required b))
      else [])"
  by (subst mergeNodes.simps) (simp add: Let_def)

















section \<open>Optional paths and required properties\<close>








lemma FinalizeOptional_fold_other:
  "SchemaStore.seenCount (fold (\<lambda>entry st.
             if snd entry < n
             then st\<lparr>Optional := AList.update (fst entry) True (Optional st)\<rparr>
             else st) entries st0) = SchemaStore.seenCount st0 \<and>
   totalCount (fold (\<lambda>entry st.
             if snd entry < n
             then st\<lparr>Optional := AList.update (fst entry) True (Optional st)\<rparr>
             else st) entries st0) = totalCount st0"
  by (induction entries arbitrary: st0) simp_all

lemma FinalizeOptional_other [simp]:
  "SchemaStore.seenCount (FinalizeOptional s) = SchemaStore.seenCount s"
  "totalCount (FinalizeOptional s) = totalCount s"
  unfolding FinalizeOptional_def
  using FinalizeOptional_fold_other[of "totalCount s" "SchemaStore.seenCount s" s]
  by simp_all






text \<open>
  The count of a path is the number of values recorded at it, and every element of an
  array of primitives is recorded: of the two bodies \<open>{"tags": ["a", "b"]}\<close> and
  \<open>{"name": "x"}\<close>, only the first has \<open>tags\<close>, the path \<open>tags[]\<close> is counted twice, and
  \<open>tags\<close> is required.
\<close>

lemma array_elements_counted_each:
  "map_of (SchemaStore.seenCount (observed
      [VObject [(''tags'', VArray [VString ''a'', VString ''b''])],
       VObject [(''name'', VString ''x'')]])) ''tags[]'' = Some 2 \<and>
   SchemaNode.Required
     (BuildSchemaTree (Some (observed
        [VObject [(''tags'', VArray [VString ''a'', VString ''b''])],
         VObject [(''name'', VString ''x'')]]))) = [''tags'']"
  unfolding observed_def by code_simp



end
